theory Spec2Isabelle
  imports Main "HOL-Library.Word"
begin

section \<open>JavaScript strings\<close>

text \<open>
  A JavaScript string is a sequence of UTF-16 code units; \<open>s.length\<close> counts code units,
  so an astral character such as U+1F600 contributes two (a surrogate pair).
\<close>

type_synonym code_unit = "16 word"
type_synonym jsstring = "code_unit list"

definition of_ascii :: "string \<Rightarrow> jsstring" where
  "of_ascii s = map (\<lambda>c. of_nat (of_char c)) s"

text \<open>
  \<open>String.prototype.trim\<close> strips ECMAScript WhiteSpace and LineTerminator code units from
  both ends: TAB, LF, VT, FF, CR, SP, NBSP, U+1680, U+2000..U+200A, U+2028, U+2029, U+202F,
  U+205F, U+3000 and U+FEFF.
\<close>

definition isWhiteSpace :: "code_unit \<Rightarrow> bool" where
  "isWhiteSpace c =
     (let n = unat c in
        (9 \<le> n \<and> n \<le> 13) \<or> n = 0x20 \<or> n = 0xA0 \<or> n = 0x1680 \<or>
        (0x2000 \<le> n \<and> n \<le> 0x200A) \<or> n = 0x2028 \<or> n = 0x2029 \<or> n = 0x202F \<or>
        n = 0x205F \<or> n = 0x3000 \<or> n = 0xFEFF)"

definition trim :: "jsstring \<Rightarrow> jsstring" where
  "trim s = rev (dropWhile isWhiteSpace (rev (dropWhile isWhiteSpace s)))"

text \<open>
  A regular expression with the \<open>u\<close> flag reads its subject by code points: a high
  surrogate followed by a low surrogate is one code point, any other code unit stands for
  itself.
\<close>

definition isHighSurrogate :: "code_unit \<Rightarrow> bool" where
  "isHighSurrogate c = (0xD800 \<le> unat c \<and> unat c \<le> 0xDBFF)"

definition isLowSurrogate :: "code_unit \<Rightarrow> bool" where
  "isLowSurrogate c = (0xDC00 \<le> unat c \<and> unat c \<le> 0xDFFF)"

fun codePoints :: "jsstring \<Rightarrow> nat list" where
  "codePoints [] = []"
| "codePoints [c] = [unat c]"
| "codePoints (h # l # rest) =
     (if isHighSurrogate h \<and> isLowSurrogate l
      then (0x10000 + (unat h - 0xD800) * 0x400 + (unat l - 0xDC00)) # codePoints rest
      else unat h # codePoints (l # rest))"

subsection \<open>helpers.js: containsEmoji\<close>

text \<open>
  The six alternatives of \<open>emojiRegex\<close>, in the order of the source:
  U+1F600..U+1F64F, U+1F300..U+1F5FF, U+1F680..U+1F6FF, U+1F1E0..U+1F1FF, U+2600..U+26FF,
  U+2700..U+27BF.
\<close>

definition emojiRegexChar :: "nat \<Rightarrow> bool" where
  "emojiRegexChar cp =
     ((0x1F600 \<le> cp \<and> cp \<le> 0x1F64F) \<or> (0x1F300 \<le> cp \<and> cp \<le> 0x1F5FF) \<or>
      (0x1F680 \<le> cp \<and> cp \<le> 0x1F6FF) \<or> (0x1F1E0 \<le> cp \<and> cp \<le> 0x1F1FF) \<or>
      (0x2600 \<le> cp \<and> cp \<le> 0x26FF) \<or> (0x2700 \<le> cp \<and> cp \<le> 0x27BF))"

text \<open>
  \<open>emojiRegex.test(text)\<close>: the expression is not anchored, so the test succeeds as soon as
  one code point of the text lies in one of the ranges.
\<close>

definition containsEmoji :: "jsstring \<Rightarrow> bool" where
  "containsEmoji text = list_ex emojiRegexChar (codePoints text)"

section \<open>models/Message.js: the message schema\<close>

text \<open>
  An ObjectId is an opaque identifier, a Date a number of milliseconds since the epoch
  (Date objects compare by that number). The field \<open>mid\<close> is the document's \<open>_id\<close>;
  \<open>createdAt\<close> and \<open>updatedAt\<close> come from the schema option \<open>timestamps\<close>.
\<close>

type_synonym objectId = nat
type_synonym date = int

datatype msgType = TextType | EmojiType
datatype msgStatus = Sent | Delivered | Read

record message =
  mid :: objectId
  sender :: objectId
  receiver :: objectId
  content :: jsstring
  messageType :: msgType
  status :: msgStatus
  deliveredAt :: "date option"
  readAt :: "date option"
  editedAt :: "date option"
  isDeleted :: bool
  deletedAt :: "date option"
  replyTo :: "objectId option"
  createdAt :: date
  updatedAt :: date

text \<open>
  The users collection belongs to another part of the repository; the message code only
  looks users up by id and projects a few profile fields.
\<close>

record user =
  uid :: objectId
  name :: jsstring
  avatar :: jsstring
  isOnline :: bool
  lastSeen :: date

text \<open>
  The outcomes of the handlers. Each \<open>return res.status(n).json(errorResponse(...))\<close> of a
  controller is one of these: 404 is \<open>NotFound\<close>, 403 is \<open>Forbidden\<close>, the 400 of the search
  handler and a rejected schema validation are \<open>ValidationError\<close>, the 400 of the edit
  window is \<open>InvalidState\<close>, and an exception passed to the error middleware by
  \<open>asyncHandler\<close> is \<open>Internal\<close>.
\<close>

datatype error = ValidationError | NotFound | Forbidden | InvalidState | Internal

text \<open>
  The messages collection is the list of its documents in insertion order. A fresh
  ObjectId differs from every id in the collection.
\<close>

definition freshId :: "message list \<Rightarrow> objectId" where
  "freshId db = Suc (foldr max (map mid db) 0)"

definition findById :: "message list \<Rightarrow> objectId \<Rightarrow> message option" where
  "findById db i = find (\<lambda>m. mid m = i) db"

definition User_findById :: "user list \<Rightarrow> objectId \<Rightarrow> user option" where
  "User_findById users i = find (\<lambda>u. uid u = i) users"

text \<open>
  Schema validation before a save: \<open>content\<close> is required (for a string path the empty
  string counts as missing) and has \<open>maxlength\<close> 1000; the other required paths and the
  enums hold by typing. The schema option \<open>trim: true\<close> is a setter: every value assigned
  to \<open>content\<close> is trimmed first.
\<close>

definition validate :: "message \<Rightarrow> bool" where
  "validate m = (content m \<noteq> [] \<and> length (content m) \<le> 1000)"

definition set_content :: "jsstring \<Rightarrow> message \<Rightarrow> message" where
  "set_content c m = m\<lparr>content := trim c\<rparr>"

text \<open>
  \<open>doc.save()\<close> on a document loaded from the collection: rejected when validation fails;
  nothing is written when no path was modified; otherwise the modified paths are written
  and \<open>updatedAt\<close> is stamped (schema option \<open>timestamps\<close>). A handler runs without
  interleaving here, so the stored document is the loaded one and writing the modified
  paths replaces it by the document in memory.
\<close>

definition save :: "message list \<Rightarrow> message \<Rightarrow> message \<Rightarrow> date \<Rightarrow> (error + message) \<times> message list" where
  "save db loaded doc now =
     (if \<not> validate doc then (Inl ValidationError, db)
      else if doc = loaded then (Inr doc, db)
      else (let d = doc\<lparr>updatedAt := now\<rparr>
            in (Inr d, map (\<lambda>x. if mid x = mid d then d else x) db)))"

text \<open>
  \<open>Model.updateMany(filter, {$set: ...})\<close>: every matching document gets the update and a
  new \<open>updatedAt\<close>; the result reports how many documents were modified. Both filters
  below exclude the status their update sets, so every matched document is modified.
\<close>

definition updateMany ::
  "(message \<Rightarrow> bool) \<Rightarrow> (message \<Rightarrow> message) \<Rightarrow> date \<Rightarrow> message list \<Rightarrow> nat \<times> message list" where
  "updateMany flt upd now db =
     (length (filter flt db), map (\<lambda>m. if flt m then (upd m)\<lparr>updatedAt := now\<rparr> else m) db)"

subsection \<open>Statics: markAsDelivered, markAsRead, getUnreadCount\<close>

definition markAsDelivered :: "objectId \<Rightarrow> objectId \<Rightarrow> date \<Rightarrow> message list \<Rightarrow> nat \<times> message list" where
  "markAsDelivered senderId receiverId now db =
     updateMany (\<lambda>m. sender m = senderId \<and> receiver m = receiverId \<and> status m = Sent)
       (\<lambda>m. m\<lparr>status := Delivered, deliveredAt := Some now\<rparr>) now db"

definition markAsRead :: "objectId \<Rightarrow> objectId \<Rightarrow> date \<Rightarrow> message list \<Rightarrow> nat \<times> message list" where
  "markAsRead senderId receiverId now db =
     updateMany
       (\<lambda>m. sender m = senderId \<and> receiver m = receiverId \<and> (status m = Sent \<or> status m = Delivered))
       (\<lambda>m. m\<lparr>status := Read, readAt := Some now\<rparr>) now db"


subsection \<open>Statics: getConversation, getLatestConversations\<close>

text \<open>
  \<open>.sort({createdAt: -1})\<close>: newest first; documents with equal \<open>createdAt\<close> keep their
  collection order. \<open>.skip(n).limit(k)\<close>: the server rejects a negative skip, a limit of 0
  means no limit, and the driver sends the absolute value of a negative limit.
\<close>

definition sortNewestFirst :: "message list \<Rightarrow> message list" where
  "sortNewestFirst ms = sort_key (\<lambda>m. - createdAt m) ms"

definition skipLimit :: "int \<Rightarrow> int \<Rightarrow> 'a list \<Rightarrow> error + 'a list" where
  "skipLimit skip limit xs =
     (if skip < 0 then Inl Internal
      else Inr (let ys = drop (nat skip) xs in if limit = 0 then ys else take (nat (abs limit)) ys))"

text \<open>
  \<open>.populate('replyTo', 'content sender')\<close> looks the referenced message up by id in the
  messages collection and puts its \<open>_id\<close>, \<open>content\<close> and \<open>sender\<close> in place of the
  reference; a missing reference, or one that finds no message, gives null. The lookup
  has no condition on \<open>isDeleted\<close>. A populated result is the stored document together
  with that sub-document. \<open>.populate('sender', 'name avatar')\<close> and its twin for the
  receiver add profile fields of users, no message data, and select nothing; they are left
  out of the query results.
\<close>

record replyRef =
  r_id :: objectId
  r_content :: jsstring
  r_sender :: objectId

record populatedMessage =
  document :: message
  p_replyTo :: "replyRef option"

definition replyTarget :: "message list \<Rightarrow> objectId option \<Rightarrow> replyRef option" where
  "replyTarget db r =
     (case r of
        None \<Rightarrow> None
      | Some i \<Rightarrow> map_option (\<lambda>t. \<lparr>r_id = mid t, r_content = content t, r_sender = sender t\<rparr>)
                    (findById db i))"

definition populateReplyTo :: "message list \<Rightarrow> message \<Rightarrow> populatedMessage" where
  "populateReplyTo db m = \<lparr>document = m, p_replyTo = replyTarget db (replyTo m)\<rparr>"

text \<open>
  The filter of \<open>getConversation\<close>: either direction between the two users, not deleted.
\<close>

definition conversationFilter :: "objectId \<Rightarrow> objectId \<Rightarrow> message \<Rightarrow> bool" where
  "conversationFilter userId1 userId2 m =
     (((sender m = userId1 \<and> receiver m = userId2) \<or> (sender m = userId2 \<and> receiver m = userId1))
      \<and> \<not> isDeleted m)"

definition getConversation ::
  "message list \<Rightarrow> objectId \<Rightarrow> objectId \<Rightarrow> int \<Rightarrow> int \<Rightarrow> error + populatedMessage list" where
  "getConversation db userId1 userId2 page limit =
     (let skip = (page - 1) * limit
      in case skipLimit skip limit
                (sortNewestFirst (filter (conversationFilter userId1 userId2) db)) of
           Inl e \<Rightarrow> Inl e
         | Inr found \<Rightarrow> Inr (map (populateReplyTo db) found))"








section \<open>The pre-save hook and Message.create\<close>

text \<open>
  Besides the collection, the process holds the documents whose pre-save hook armed the
  one-second timer. The closure keeps the document object that \<open>create\<close> built; later
  writes to the collection do not reach that object.
\<close>

record world =
  messages :: "message list"
  timers :: "message list"

record fields =
  f_sender :: objectId
  f_receiver :: objectId
  f_content :: jsstring
  f_messageType :: "msgType option"
  f_status :: "msgStatus option"
  f_replyTo :: "objectId option"

definition newDocument :: "message list \<Rightarrow> date \<Rightarrow> fields \<Rightarrow> message" where
  "newDocument db now f =
     set_content (f_content f)
       \<lparr>mid = freshId db, sender = f_sender f, receiver = f_receiver f, content = [],
        messageType = (case f_messageType f of None \<Rightarrow> TextType | Some t \<Rightarrow> t),
        status = (case f_status f of None \<Rightarrow> Sent | Some s \<Rightarrow> s),
        deliveredAt = None, readAt = None, editedAt = None, isDeleted = False,
        deletedAt = None, replyTo = f_replyTo f, createdAt = now, updatedAt = now\<rparr>"

text \<open>
  Validation runs before the schema's own pre-save hook, so a rejected document arms no
  timer. The hook arms it when the document is new and its status is \<open>sent\<close>.
\<close>

definition Message_create :: "world \<Rightarrow> date \<Rightarrow> fields \<Rightarrow> (error + message) \<times> world" where
  "Message_create w now f =
     (let doc = newDocument (messages w) now f
      in if \<not> validate doc then (Inl ValidationError, w)
         else (Inr doc,
               \<lparr>messages = messages w @ [doc],
                timers = (if status doc = Sent then timers w @ [doc] else timers w)\<rparr>))"

text \<open>
  The timer callback. \<open>this\<close> is the document in memory: the guard reads its status, and
  \<open>this.save()\<close> writes the two modified paths (and \<open>updatedAt\<close>) to the stored document
  with the same id, whatever that document's stored status is.
\<close>

definition autoDeliver :: "message \<Rightarrow> date \<Rightarrow> message list \<Rightarrow> message list" where
  "autoDeliver this now db =
     (if status this = Sent
      then (if validate (this\<lparr>status := Delivered, deliveredAt := Some now\<rparr>)
            then map (\<lambda>d. if mid d = mid this
                          then d\<lparr>status := Delivered, deliveredAt := Some now, updatedAt := now\<rparr>
                          else d) db
            else db)
      else db)"

definition timerFires :: "nat \<Rightarrow> date \<Rightarrow> world \<Rightarrow> world" where
  "timerFires k now w =
     (if k < length (timers w)
      then \<lparr>messages = autoDeliver (timers w ! k) now (messages w),
            timers = take k (timers w) @ drop (Suc k) (timers w)\<rparr>
      else w)"

section \<open>controllers/messageController.js\<close>

text \<open>
  A handler takes the authenticated user (\<open>req.user._id\<close>), the clock reading of its
  \<open>new Date()\<close> and the request parameters, and returns its response together with the
  state it leaves. The routes put a request validator in front of \<open>sendMessage\<close> (content
  trimmed, 1 to 1000 characters) and of \<open>searchMessages\<close> (query trimmed, 1 to 50
  characters) only; a request they accept reaches the handler, and the handler is what is
  modelled. \<open>sendMessage\<close>, \<open>editMessage\<close> and \<open>forwardMessage\<close> populate the document they
  wrote for the response body only; the model returns the document as written. Content is
  taken to be well-formed UTF-16, which the database stores as it is.
\<close>

definition detectMessageType :: "jsstring \<Rightarrow> msgType" where
  "detectMessageType c = (if containsEmoji c \<and> length (trim c) \<le> 10 then EmojiType else TextType)"

definition sendMessage ::
  "user list \<Rightarrow> world \<Rightarrow> date \<Rightarrow> objectId \<Rightarrow> objectId \<Rightarrow> jsstring \<Rightarrow> msgType option \<Rightarrow> objectId option
     \<Rightarrow> (error + message) \<times> world" where
  "sendMessage users w now me receiverId c mt rt =
     (case User_findById users receiverId of
        None \<Rightarrow> (Inl NotFound, w)
      | Some r \<Rightarrow>
          (let finalMessageType = (case mt of Some t \<Rightarrow> t | None \<Rightarrow> detectMessageType c)
           in Message_create w now
                \<lparr>f_sender = me, f_receiver = receiverId, f_content = trim c,
                 f_messageType = Some finalMessageType, f_status = None, f_replyTo = rt\<rparr>))"


definition deleteMessage ::
  "message list \<Rightarrow> date \<Rightarrow> objectId \<Rightarrow> objectId \<Rightarrow> (error + message) \<times> message list" where
  "deleteMessage db now me messageId =
     (case findById db messageId of
        None \<Rightarrow> (Inl NotFound, db)
      | Some m \<Rightarrow>
          if sender m \<noteq> me then (Inl Forbidden, db)
          else save db m (m\<lparr>isDeleted := True, deletedAt := Some now\<rparr>) now)"

definition editMessage ::
  "message list \<Rightarrow> date \<Rightarrow> objectId \<Rightarrow> objectId \<Rightarrow> jsstring \<Rightarrow> (error + message) \<times> message list" where
  "editMessage db now me messageId c =
     (case findById db messageId of
        None \<Rightarrow> (Inl NotFound, db)
      | Some m \<Rightarrow>
          if sender m \<noteq> me then (Inl Forbidden, db)
          else (let twentyFourHoursAgo = now - 24 * 60 * 60 * 1000
                in if createdAt m < twentyFourHoursAgo then (Inl InvalidState, db)
                   else save db m
                          ((set_content (trim c) m)
                             \<lparr>editedAt := Some now, messageType := detectMessageType c\<rparr>) now))"

text \<open>
  \<open>getMessage\<close> populates sender, receiver and \<open>replyTo\<close> before its participant check; a
  reference to a user that no longer exists populates to null, and reading \<open>_id\<close> of null
  throws. The check reads the receiver only when the sender is not the requester.
\<close>

definition getMessage ::
  "user list \<Rightarrow> message list \<Rightarrow> objectId \<Rightarrow> objectId \<Rightarrow> error + populatedMessage" where
  "getMessage users db me messageId =
     (case findById db messageId of
        None \<Rightarrow> Inl NotFound
      | Some m \<Rightarrow>
          (case User_findById users (sender m) of
             None \<Rightarrow> Inl Internal
           | Some s \<Rightarrow>
               if uid s = me then Inr (populateReplyTo db m)
               else (case User_findById users (receiver m) of
                       None \<Rightarrow> Inl Internal
                     | Some r \<Rightarrow>
                         if uid r = me then Inr (populateReplyTo db m) else Inl Forbidden)))"

text \<open>
  The search handler compiles the trimmed query itself as a regular expression with the
  flag \<open>i\<close> and passes it to the query as the condition on \<open>content\<close>. The expression
  engine is not part of the repository and is a parameter: \<open>regExp p\<close> is \<open>None\<close> when
  \<open>new RegExp(p, 'i')\<close> throws a SyntaxError, and otherwise the set of strings the
  expression matches somewhere. The search populates sender and receiver only, so its
  results are the stored documents.
\<close>

definition searchMessages ::
  "(jsstring \<Rightarrow> (jsstring \<Rightarrow> bool) option) \<Rightarrow> user list \<Rightarrow> message list \<Rightarrow> objectId \<Rightarrow> objectId
     \<Rightarrow> jsstring \<Rightarrow> int \<Rightarrow> int \<Rightarrow> error + message list" where
  "searchMessages regExp users db me userId query page limit =
     (let skip = (page - 1) * limit
      in if query = [] \<or> length (trim query) < 2 then Inl ValidationError
         else (case User_findById users userId of
                 None \<Rightarrow> Inl NotFound
               | Some otherUser \<Rightarrow>
                   (case regExp (trim query) of
                      None \<Rightarrow> Inl Internal
                    | Some searchRegex \<Rightarrow>
                        skipLimit skip limit
                          (sortNewestFirst
                             (filter (\<lambda>m. conversationFilter me userId m \<and> searchRegex (content m)) db)))))"

definition forwardMessage ::
  "user list \<Rightarrow> world \<Rightarrow> date \<Rightarrow> objectId \<Rightarrow> objectId \<Rightarrow> objectId \<Rightarrow> (error + message) \<times> world" where
  "forwardMessage users w now me messageId receiverId =
     (case findById (messages w) messageId of
        None \<Rightarrow> (Inl NotFound, w)
      | Some originalMessage \<Rightarrow>
          (let hasAccess = (sender originalMessage = me \<or> receiver originalMessage = me)
           in if \<not> hasAccess then (Inl Forbidden, w)
              else (case User_findById users receiverId of
                      None \<Rightarrow> (Inl NotFound, w)
                    | Some r \<Rightarrow>
                        Message_create w now
                          \<lparr>f_sender = me, f_receiver = receiverId,
                           f_content = content originalMessage,
                           f_messageType = Some (messageType originalMessage),
                           f_status = None, f_replyTo = None\<rparr>)))"

section \<open>socket/socketHandler.js: the sendMessage event\<close>


section \<open>Sequences of store operations\<close>

text \<open>
  The operations that write a message's status: creating a message, the two bulk
  transitions, and the firing of a pending timer. Each comes with its clock reading.
\<close>

datatype operation =
    Create fields
  | MarkAsDelivered objectId objectId
  | MarkAsRead objectId objectId
  | TimerFires nat

fun step :: "world \<Rightarrow> date \<times> operation \<Rightarrow> world" where
  "step w (now, Create f) = snd (Message_create w now f)"
| "step w (now, MarkAsDelivered s r) = w\<lparr>messages := snd (markAsDelivered s r now (messages w))\<rparr>"
| "step w (now, MarkAsRead s r) = w\<lparr>messages := snd (markAsRead s r now (messages w))\<rparr>"
| "step w (now, TimerFires k) = timerFires k now w"

definition run :: "world \<Rightarrow> (date \<times> operation) list \<Rightarrow> world" where
  "run w ops = foldl step w ops"

fun statusRank :: "msgStatus \<Rightarrow> nat" where
  "statusRank Sent = 0"
| "statusRank Delivered = 1"
| "statusRank Read = 2"

definition isTimerFires :: "operation \<Rightarrow> bool" where
  "isTimerFires op = (case op of TimerFires k \<Rightarrow> True | _ \<Rightarrow> False)"

section \<open>A fragment of the regular expression engine\<close>

text \<open>
  Patterns built from ASCII characters that are not syntax characters and from the dot,
  under the flag \<open>i\<close>. A literal matches a code unit with the same canonical form (ASCII
  letters are canonicalised to upper case; a code unit from 128 on never canonicalises to
  an ASCII one); the dot matches any code unit but a line terminator. The test succeeds
  when the pattern matches at some position of the subject. A pattern outside the
  fragment gets \<open>None\<close>; that is the runtime's answer for the ill-formed ones among them
  only, so the fragment stands for the engine on patterns within it.
\<close>

datatype atom = Literal code_unit | AnyChar

definition isSyntaxCharacter :: "code_unit \<Rightarrow> bool" where
  "isSyntaxCharacter c =
     (c \<in> set [0x5E, 0x24, 0x5C, 0x2E, 0x2A, 0x2B, 0x3F, 0x28, 0x29, 0x5B, 0x5D, 0x7B, 0x7D, 0x7C])"

fun parsePattern :: "jsstring \<Rightarrow> atom list option" where
  "parsePattern [] = Some []"
| "parsePattern (c # cs) =
     (if c = 0x2E then map_option (Cons AnyChar) (parsePattern cs)
      else if isSyntaxCharacter c \<or> 128 \<le> unat c then None
      else map_option (Cons (Literal c)) (parsePattern cs))"

definition canonicalize :: "code_unit \<Rightarrow> code_unit" where
  "canonicalize c = (if 0x61 \<le> unat c \<and> unat c \<le> 0x7A then c - 0x20 else c)"

definition isLineTerminator :: "code_unit \<Rightarrow> bool" where
  "isLineTerminator c = (c = 0x0A \<or> c = 0x0D \<or> c = 0x2028 \<or> c = 0x2029)"

fun matchAtom :: "atom \<Rightarrow> code_unit \<Rightarrow> bool" where
  "matchAtom (Literal p) c = (canonicalize c = canonicalize p)"
| "matchAtom AnyChar c = (\<not> isLineTerminator c)"

fun matchHere :: "atom list \<Rightarrow> jsstring \<Rightarrow> bool" where
  "matchHere [] s = True"
| "matchHere (a # as) [] = False"
| "matchHere (a # as) (c # cs) = (matchAtom a c \<and> matchHere as cs)"

fun matchAnywhere :: "atom list \<Rightarrow> jsstring \<Rightarrow> bool" where
  "matchAnywhere as [] = matchHere as []"
| "matchAnywhere as (c # cs) = (matchHere as (c # cs) \<or> matchAnywhere as cs)"

definition regExpFragment :: "jsstring \<Rightarrow> (jsstring \<Rightarrow> bool) option" where
  "regExpFragment p = map_option matchAnywhere (parsePattern p)"

section \<open>The specification's vocabulary\<close>


text \<open>
  The specification's search: the query occurs in the content as a literal substring, up
  to case.
\<close>

definition containsIgnoreCase :: "jsstring \<Rightarrow> jsstring \<Rightarrow> bool" where
  "containsIgnoreCase query c = matchAnywhere (map Literal query) c"

text \<open>
  What every stored document satisfies, since each write path validates and the setter
  trims: the content is trimmed, not empty and at most 1000 code units long.
\<close>

definition schemaOk :: "message \<Rightarrow> bool" where
  "schemaOk m = (validate m \<and> trim (content m) = content m)"

definition storeOk :: "message list \<Rightarrow> bool" where
  "storeOk db = list_all schemaOk db"


section \<open>Example data\<close>

definition alice :: user where
  "alice = \<lparr>uid = 1, name = of_ascii ''Alice'', avatar = [], isOnline = True, lastSeen = 0\<rparr>"

definition bob :: user where
  "bob = \<lparr>uid = 2, name = of_ascii ''Bob'', avatar = [], isOnline = False, lastSeen = 0\<rparr>"

definition carol :: user where
  "carol = \<lparr>uid = 3, name = of_ascii ''Carol'', avatar = [], isOnline = False, lastSeen = 0\<rparr>"

definition emptyWorld :: world where
  "emptyWorld = \<lparr>messages = [], timers = []\<rparr>"

text \<open>A message from Alice to Bob with the given id, content and creation time.\<close>

definition exampleMessage :: "objectId \<Rightarrow> jsstring \<Rightarrow> date \<Rightarrow> message" where
  "exampleMessage i c t =
     \<lparr>mid = i, sender = 1, receiver = 2, content = c, messageType = TextType, status = Sent,
      deliveredAt = None, readAt = None, editedAt = None, isDeleted = False, deletedAt = None,
      replyTo = None, createdAt = t, updatedAt = t\<rparr>"

text \<open>The string \<open>Hi\<close>, a space, and U+1F600 as its surrogate pair.\<close>

definition hiGrinning :: jsstring where
  "hiGrinning = of_ascii ''Hi '' @ [0xD83D, 0xDE00]"

text \<open>A message that its sender deleted at time 100.\<close>

definition deletedExample :: message where
  "deletedExample = (exampleMessage 7 (of_ascii ''hello'') 0)\<lparr>isDeleted := True, deletedAt := Some 100\<rparr>"

text \<open>The document that sending \<open>hiGrinning\<close> at time 0 stores in an empty collection.\<close>

definition hiStored :: message where
  "hiStored = (exampleMessage 1 hiGrinning 0)\<lparr>messageType := EmojiType\<rparr>"

definition hiFields :: fields where
  "hiFields = \<lparr>f_sender = 1, f_receiver = 2, f_content = of_ascii ''hi'',
               f_messageType = None, f_status = None, f_replyTo = None\<rparr>"

text \<open>A collection of two messages from Alice to Bob, the older one deleted.\<close>

definition exampleDb :: "message list" where
  "exampleDb = [deletedExample, exampleMessage 8 (of_ascii ''hello again'') 50]"

definition abcMessage :: message where
  "abcMessage = exampleMessage 1 (of_ascii ''abc'') 0"

text \<open>
  Bob's reply, at time 60, to the message that Alice later deleted, and the collection of
  the two.
\<close>

definition replyExample :: message where
  "replyExample =
     (exampleMessage 9 (of_ascii ''ok'') 60)\<lparr>sender := 2, receiver := 1, replyTo := Some 7\<rparr>"

definition replyDb :: "message list" where
  "replyDb = [deletedExample, replyExample]"

text \<open>What the gateway stores for \<open>hiGrinning\<close> sent at time 0 into an empty collection.\<close>

definition hiStoredBySocket :: message where
  "hiStoredBySocket = exampleMessage 1 hiGrinning 0"

text \<open>The messages a response carries; an error response carries none.\<close>

definition carried :: "error + 'a list \<Rightarrow> 'a list" where
  "carried r = (case r of Inl e \<Rightarrow> [] | Inr xs \<Rightarrow> xs)"

text \<open>
  The document \<open>forwardMessage\<close> hands to \<open>Message.create\<close> for an original \<open>m\<close>, once the
  schema defaults are filled in.
\<close>

definition forwarded :: "message list \<Rightarrow> date \<Rightarrow> objectId \<Rightarrow> objectId \<Rightarrow> message \<Rightarrow> message" where
  "forwarded db now me receiverId m =
     \<lparr>mid = freshId db, sender = me, receiver = receiverId, content = content m,
      messageType = messageType m, status = Sent,
      deliveredAt = None, readAt = None, editedAt = None, isDeleted = False,
      deletedAt = None, replyTo = None, createdAt = now, updatedAt = now\<rparr>"

text \<open>The example collection as a world with no pending timer.\<close>

definition exampleWorld :: world where
  "exampleWorld = \<lparr>messages = exampleDb, timers = []\<rparr>"

section \<open>Basic facts\<close>

lemmas example_defs = exampleMessage_def of_ascii_def alice_def bob_def carol_def emptyWorld_def
  hiGrinning_def deletedExample_def hiStored_def hiFields_def exampleDb_def abcMessage_def
  exampleWorld_def replyExample_def replyDb_def hiStoredBySocket_def

lemmas regex_defs = regExpFragment_def isSyntaxCharacter_def canonicalize_def isLineTerminator_def
  containsIgnoreCase_def

lemmas string_defs = trim_def isWhiteSpace_def containsEmoji_def isHighSurrogate_def
  isLowSurrogate_def emojiRegexChar_def

lemma findById_Some: "findById db i = Some m \<Longrightarrow> mid m = i \<and> m \<in> set db"
  unfolding findById_def by (induction db) (auto split: if_splits)

lemma findById_append: "findById db i = Some m \<Longrightarrow> findById (db @ extra) i = Some m"
  unfolding findById_def by (induction db) auto


lemma freshId_greater: "x \<in> set db \<Longrightarrow> mid x < freshId db"
  unfolding freshId_def by (induction db) auto


lemma skipLimit_unlimited: "skipLimit 0 0 xs = Inr xs"
  by (simp add: skipLimit_def)




subsection \<open>The rows of a conversation\<close>



lemma getConversation_unlimited:
  "document ` set (carried (getConversation db a b 1 0)) = set (filter (conversationFilter a b) db)"
proof -
  have "document ` populateReplyTo db ` A = A" for A
    by (force simp: populateReplyTo_def)
  moreover have "carried (getConversation db a b 1 0)
      = map (populateReplyTo db) (sortNewestFirst (filter (conversationFilter a b) db))"
    by (simp add: getConversation_def skipLimit_unlimited carried_def)
  ultimately show ?thesis
    by (simp add: sortNewestFirst_def)
qed


subsection \<open>The aggregation keeps stored, matched documents\<close>






subsection \<open>A successful forward\<close>

lemma forwardMessage_succeeds:
  assumes "findById (messages w) i = Some m"
    and "sender m = me \<or> receiver m = me"
    and "User_findById users receiverId = Some r"
    and "schemaOk m"
  shows "forwardMessage users w now me i receiverId =
     (Inr (forwarded (messages w) now me receiverId m),
      \<lparr>messages = messages w @ [forwarded (messages w) now me receiverId m],
       timers = timers w @ [forwarded (messages w) now me receiverId m]\<rparr>)"
  using assms
  by (auto simp: forwardMessage_def Message_create_def newDocument_def set_content_def
      schemaOk_def validate_def forwarded_def Let_def)

subsection \<open>Trimming twice\<close>

lemma dropWhile_front_kept:
  assumes "xs = [] \<or> \<not> P (hd xs)"
  shows "dropWhile P (rev (dropWhile P (rev xs))) = rev (dropWhile P (rev xs))"
proof (cases "dropWhile P (rev xs) = []")
  case True
  show ?thesis unfolding True by simp
next
  case False
  let ?u = "dropWhile P (rev xs)"
  have "rev (takeWhile P (rev xs) @ ?u) = rev (rev xs)"
    by (simp only: takeWhile_dropWhile_id)
  then have xs: "xs = rev ?u @ rev (takeWhile P (rev xs))"
    by (simp only: rev_append rev_rev_ident)
  from False have ne: "rev ?u \<noteq> []" by simp
  then obtain y ys where u: "rev ?u = y # ys" by (cases "rev ?u") auto
  with xs have "hd xs = y" by (metis append_Cons list.sel(1))
  moreover from xs u have "xs \<noteq> []" by auto
  ultimately have "\<not> P y" using assms by auto
  then show ?thesis using u by simp
qed

lemma trim_trim: "trim (trim s) = trim s"
proof -
  let ?t = "dropWhile isWhiteSpace s"
  let ?u = "dropWhile isWhiteSpace (rev ?t)"
  have h: "?t = [] \<or> \<not> isWhiteSpace (hd ?t)"
    using hd_dropWhile [of isWhiteSpace s] by blast
  have "dropWhile isWhiteSpace (rev ?u) = rev ?u"
    using dropWhile_front_kept [of ?t isWhiteSpace] h by blast
  then show ?thesis by (simp add: trim_def)
qed

subsection \<open>Every write keeps the schema\<close>

lemma updateMany_storeOk:
  assumes "\<And>x. content (upd x) = content x" and "storeOk db"
  shows "storeOk (snd (updateMany flt upd now db))"
  using assms(2) unfolding storeOk_def updateMany_def
  by (induction db) (auto simp: schemaOk_def validate_def assms(1))

lemma create_storeOk:
  assumes "storeOk (messages w)"
  shows "storeOk (messages (snd (Message_create w now f)))"
  using assms
  by (auto simp: Message_create_def Let_def storeOk_def schemaOk_def newDocument_def
      set_content_def trim_trim)

lemma save_storeOk:
  assumes "storeOk db" and "trim (content doc) = content doc"
  shows "storeOk (snd (save db loaded doc now))"
proof -
  have "schemaOk (doc\<lparr>updatedAt := now\<rparr>)" if "validate doc"
    using that assms(2) by (simp add: schemaOk_def validate_def)
  then show ?thesis
    using assms(1) unfolding storeOk_def save_def Let_def
    by (induction db) auto
qed

lemma timer_storeOk:
  assumes "storeOk (messages w)"
  shows "storeOk (messages (timerFires k now w))"
proof -
  have "list_all schemaOk (autoDeliver this now db)" if "list_all schemaOk db" for this db
    using that unfolding autoDeliver_def
    by (induction db) (auto simp: schemaOk_def validate_def)
  then show ?thesis using assms by (simp add: timerFires_def storeOk_def)
qed

text \<open>
  The schema is an invariant of the collection: the operations on statuses and the
  handlers that write all lead from a collection of schema-valid documents to one.
\<close>

lemma schema_preserved:
  assumes "storeOk (messages w)"
  shows "storeOk (messages (step w (now, op)))
     \<and> storeOk (messages (snd (sendMessage users w now me receiverId c mt rt)))
     \<and> storeOk (messages (snd (forwardMessage users w now me i receiverId)))
     \<and> storeOk (snd (editMessage (messages w) now me i c))
     \<and> storeOk (snd (deleteMessage (messages w) now me i))"
proof (intro conjI)
  show "storeOk (messages (step w (now, op)))"
  proof (cases op)
    case (Create f)
    then show ?thesis using create_storeOk [OF assms] by simp
  next
    case (MarkAsDelivered s r)
    then show ?thesis using updateMany_storeOk [OF _ assms] by (simp add: markAsDelivered_def)
  next
    case (MarkAsRead s r)
    then show ?thesis using updateMany_storeOk [OF _ assms] by (simp add: markAsRead_def)
  next
    case (TimerFires k)
    then show ?thesis using timer_storeOk [OF assms] by simp
  qed
  show "storeOk (messages (snd (sendMessage users w now me receiverId c mt rt)))"
    using create_storeOk [OF assms] assms by (simp add: sendMessage_def split: option.splits)
  show "storeOk (messages (snd (forwardMessage users w now me i receiverId)))"
    using create_storeOk [OF assms] assms
    by (simp add: forwardMessage_def Let_def split: option.splits)
  show "storeOk (snd (editMessage (messages w) now me i c))"
    using save_storeOk [OF assms] assms
    by (simp add: editMessage_def Let_def set_content_def trim_trim split: option.splits)
  show "storeOk (snd (deleteMessage (messages w) now me i))"
  proof (cases "findById (messages w) i")
    case None
    then show ?thesis using assms by (simp add: deleteMessage_def)
  next
    case (Some m)
    then have "m \<in> set (messages w)" using findById_Some by blast
    then have "trim (content m) = content m"
      using assms by (auto simp: storeOk_def schemaOk_def list_all_iff)
    then show ?thesis using Some save_storeOk [OF assms] assms by (simp add: deleteMessage_def)
  qed
qed

subsection \<open>Without the timer, a status only advances\<close>

lemma findById_map:
  assumes "\<And>x. mid (f x) = mid x"
  shows "findById (map f db) i = map_option f (findById db i)"
  unfolding findById_def by (induction db) (auto simp: assms)

lemma updateMany_findById:
  assumes "\<And>x. mid (upd x) = mid x"
  shows "findById (snd (updateMany flt upd now db)) i
     = map_option (\<lambda>m. if flt m then (upd m)\<lparr>updatedAt := now\<rparr> else m) (findById db i)"
  unfolding updateMany_def
  using findById_map [of "\<lambda>m. if flt m then (upd m)\<lparr>updatedAt := now\<rparr> else m" db i]
  by (simp add: assms)

lemma step_monotone:
  assumes "findById (messages w) i = Some m" and "\<not> isTimerFires op"
  shows "\<exists>m'. findById (messages (step w (now, op))) i = Some m'
           \<and> statusRank (status m) \<le> statusRank (status m')"
proof (cases op)
  case (Create f)
  then show ?thesis
    using assms(1) findById_append [OF assms(1)]
    by (auto simp: Message_create_def Let_def)
next
  case (MarkAsDelivered s r)
  then show ?thesis
    using assms(1) by (auto simp: markAsDelivered_def updateMany_findById)
next
  case (MarkAsRead s r)
  then show ?thesis
    using assms(1) by (auto simp: markAsRead_def updateMany_findById)
next
  case (TimerFires k)
  then show ?thesis using assms(2) by (simp add: isTimerFires_def)
qed

text \<open>
  Along any sequence of creations and bulk transitions in which no timer fires, the
  status of a stored message never moves backwards.
\<close>

lemma run_monotone:
  assumes "findById (messages w) i = Some m"
    and "list_all (\<lambda>p. \<not> isTimerFires (snd p)) ops"
  shows "\<exists>m'. findById (messages (run w ops)) i = Some m'
           \<and> statusRank (status m) \<le> statusRank (status m')"
  using assms
proof (induction ops arbitrary: w m)
  case Nil
  then show ?case by (simp add: run_def)
next
  case (Cons p ops)
  obtain now op where p: "p = (now, op)" by (cases p)
  from Cons.prems(2) p have nt: "\<not> isTimerFires op"
    and rest: "list_all (\<lambda>p. \<not> isTimerFires (snd p)) ops"
    by simp_all
  from step_monotone [OF Cons.prems(1) nt, of now]
  obtain m1 where m1: "findById (messages (step w (now, op))) i = Some m1"
    "statusRank (status m) \<le> statusRank (status m1)" by blast
  from Cons.IH [OF m1(1) rest]
  obtain m' where "findById (messages (run (step w (now, op)) ops)) i = Some m'"
    "statusRank (status m1) \<le> statusRank (status m')" by blast
  with m1(2) p show ?case by (auto simp: run_def)
qed

section \<open>Status transitions\<close>

text \<open>
  Claim C2. For every sender, receiver and collection, \<open>markAsDelivered\<close> followed by
  \<open>markAsRead\<close> leaves every message with the status and \<open>readAt\<close> that \<open>markAsRead\<close> alone
  leaves; and a second \<open>markAsRead\<close> right after a first modifies no message (its
  \<open>modifiedCount\<close> is 0) and leaves the collection, with every \<open>readAt\<close> the first call
  set, as it was.
\<close>

theorem markAsDelivered_then_markAsRead:
  "map (\<lambda>m. (status m, readAt m)) (snd (markAsRead s r t2 (snd (markAsDelivered s r t1 db))))
     = map (\<lambda>m. (status m, readAt m)) (snd (markAsRead s r t2 db))
   \<and> snd (markAsRead s r t3 (snd (markAsRead s r t2 db))) = snd (markAsRead s r t2 db)
   \<and> fst (markAsRead s r t3 (snd (markAsRead s r t2 db))) = 0"
proof (intro conjI)
  show "map (\<lambda>m. (status m, readAt m)) (snd (markAsRead s r t2 (snd (markAsDelivered s r t1 db))))
     = map (\<lambda>m. (status m, readAt m)) (snd (markAsRead s r t2 db))"
    by (auto simp: markAsRead_def markAsDelivered_def updateMany_def)
  show "snd (markAsRead s r t3 (snd (markAsRead s r t2 db))) = snd (markAsRead s r t2 db)"
    by (auto simp: markAsRead_def updateMany_def)
  show "fst (markAsRead s r t3 (snd (markAsRead s r t2 db))) = 0"
    by (auto simp: markAsRead_def updateMany_def filter_map o_def)
qed

section \<open>Reading a conversation\<close>

text \<open>
  Claim C7. For every two users, page and page size, \<open>getConversation\<close> returns the same
  sequence of messages, in the same order, whichever of the two users is named first.
\<close>

theorem getConversation_symmetric:
  "getConversation db a b page limit = getConversation db b a page limit"
proof -
  have "conversationFilter a b = conversationFilter b a"
    by (auto simp: conversationFilter_def fun_eq_iff)
  then show ?thesis by (simp add: getConversation_def)
qed

section \<open>Editing\<close>

text \<open>
  Claim C5. When a stored message was created more than 24 hours before the clock
  reading of the call, an edit by its sender answers \<open>InvalidState\<close> and leaves the
  collection as it was; the message found under the id afterwards is the same document,
  so its content, type and \<open>editedAt\<close> are unchanged.
\<close>

theorem editMessage_after_window:
  assumes "findById db i = Some m"
    and "sender m = me"
    and "now - createdAt m > 24 * 60 * 60 * 1000"
  shows "editMessage db now me i c = (Inl InvalidState, db)
         \<and> findById (snd (editMessage db now me i c)) i = Some m"
  using assms by (simp add: editMessage_def)

theorem editMessage_after_window_witness:
  "findById [exampleMessage 7 (of_ascii ''hello'') 0] 7 = Some (exampleMessage 7 (of_ascii ''hello'') 0)
   \<and> sender (exampleMessage 7 (of_ascii ''hello'') 0) = 1
   \<and> 86400001 - createdAt (exampleMessage 7 (of_ascii ''hello'') 0) > 24 * 60 * 60 * 1000
   \<and> editMessage [exampleMessage 7 (of_ascii ''hello'') 0] 86400001 1 7 (of_ascii ''bye'')
       = (Inl InvalidState, [exampleMessage 7 (of_ascii ''hello'') 0])
   \<and> findById (snd (editMessage [exampleMessage 7 (of_ascii ''hello'') 0] 86400001 1 7 (of_ascii ''bye''))) 7
       = Some (exampleMessage 7 (of_ascii ''hello'') 0)"
proof -
  have a: "findById [exampleMessage 7 (of_ascii ''hello'') 0] 7 = Some (exampleMessage 7 (of_ascii ''hello'') 0)"
    by (simp add: findById_def exampleMessage_def)
  have b: "sender (exampleMessage 7 (of_ascii ''hello'') 0) = 1"
    by (simp add: exampleMessage_def)
  have c: "86400001 - createdAt (exampleMessage 7 (of_ascii ''hello'') 0) > 24 * 60 * 60 * 1000"
    by (simp add: exampleMessage_def)
  show ?thesis
    using editMessage_after_window [OF a b c, of "of_ascii ''bye''"] a b c by simp
qed

section \<open>Deleting\<close>

text \<open>
  Claim C6, as amended. A delete by the sender of a stored, schema-valid message that is
  already deleted succeeds and keeps it deleted, but it is not a no-op: \<open>deletedAt\<close> is
  overwritten with the clock reading of this call (and \<open>updatedAt\<close> with it), every other
  field staying as it was. The message is left unchanged only when that clock reading
  equals the stored \<open>deletedAt\<close>.
\<close>

theorem deleteMessage_again:
  assumes "findById db i = Some m"
    and "sender m = me"
    and "isDeleted m"
    and "validate m"
  shows "deleteMessage db now me i =
     (if deletedAt m = Some now then (Inr m, db)
      else (Inr (m\<lparr>deletedAt := Some now, updatedAt := now\<rparr>),
            map (\<lambda>x. if mid x = i then m\<lparr>deletedAt := Some now, updatedAt := now\<rparr> else x) db))"
proof -
  have e: "m\<lparr>isDeleted := True, deletedAt := Some now\<rparr> = m\<lparr>deletedAt := Some now\<rparr>"
    using assms(3) by simp
  have v: "validate (m\<lparr>deletedAt := Some now\<rparr>)"
    using assms(4) by (simp add: validate_def)
  have i: "mid m = i"
    using findById_Some [OF assms(1)] by simp
  have d: "(m\<lparr>deletedAt := Some now\<rparr> = m) = (deletedAt m = Some now)"
    by (cases m) auto
  show ?thesis
    using assms(1,2) v i d by (simp add: deleteMessage_def save_def e Let_def)
qed

theorem deleteMessage_again_witness:
  "findById [deletedExample] 7 = Some deletedExample \<and> sender deletedExample = 1
   \<and> isDeleted deletedExample \<and> validate deletedExample
   \<and> deleteMessage [deletedExample] 200 1 7 =
       (Inr (deletedExample\<lparr>deletedAt := Some 200, updatedAt := 200\<rparr>),
        [deletedExample\<lparr>deletedAt := Some 200, updatedAt := 200\<rparr>])
   \<and> deleteMessage [deletedExample] 100 1 7 = (Inr deletedExample, [deletedExample])"
proof -
  have a: "findById [deletedExample] 7 = Some deletedExample"
    by (simp add: findById_def example_defs)
  have b: "sender deletedExample = 1" and c: "isDeleted deletedExample"
    and t: "deletedAt deletedExample = Some 100" and k: "mid deletedExample = 7"
    by (simp_all add: example_defs)
  have d: "validate deletedExample"
    by (simp add: validate_def example_defs)
  show ?thesis
    using deleteMessage_again [OF a b c d, of 200] deleteMessage_again [OF a b c d, of 100] a b c d t k
    by simp
qed

text \<open>
  The claim as stated fails: a message deleted at time 100 and deleted again by its
  sender at time 200 ends with \<open>deletedAt\<close> = 200.
\<close>

theorem deleteMessage_again_counterexample:
  "isDeleted deletedExample \<and> deletedAt deletedExample = Some 100
   \<and> sender deletedExample = 1 \<and> findById [deletedExample] 7 = Some deletedExample
   \<and> map deletedAt (snd (deleteMessage [deletedExample] 200 1 7)) = [Some 200]"
  by (simp add: deleteMessage_def findById_def save_def validate_def example_defs Let_def)

section \<open>Classifying a message\<close>




section \<open>The timer against the bulk transitions\<close>

text \<open>
  Claim C1 fails on the code. Alice's message to Bob is created at time 0, which arms the
  timer; Bob reads the conversation at time 400, so the stored status is \<open>read\<close>; the timer
  fires at time 1000, finds \<open>sent\<close> in its own copy of the document, and saves: the stored
  status goes from \<open>read\<close> back to \<open>delivered\<close>.
\<close>

theorem timer_regresses_status:
  "map status (messages (run emptyWorld [(0, Create hiFields), (400, MarkAsRead 1 2)])) = [Read]
   \<and> map status (messages (run emptyWorld
        [(0, Create hiFields), (400, MarkAsRead 1 2), (1000, TimerFires 0)])) = [Delivered]"
  by (simp add: run_def Message_create_def newDocument_def set_content_def validate_def
      freshId_def markAsRead_def updateMany_def timerFires_def autoDeliver_def Let_def
      example_defs string_defs)

section \<open>Searching\<close>

text \<open>
  Claim C8 fails on the code. The handler compiles the trimmed query as a regular
  expression without escaping it. The query \<open>a.c\<close> finds the message \<open>abc\<close>, which does not
  contain \<open>a.c\<close> as a literal substring; and the query \<open>((\<close> is no well-formed expression,
  so the handler ends in the error middleware instead of answering with the matches.
\<close>

theorem searchMessages_unescaped_query:
  "searchMessages regExpFragment [alice, bob] [abcMessage] 1 2 (of_ascii ''a.c'') 1 20 = Inr [abcMessage]
   \<and> \<not> containsIgnoreCase (of_ascii ''a.c'') (content abcMessage)
   \<and> searchMessages regExpFragment [alice, bob] [abcMessage] 1 2 (of_ascii ''(('') 1 20 = Inl Internal"
  by (simp add: searchMessages_def User_findById_def skipLimit_def sortNewestFirst_def
      conversationFilter_def regex_defs example_defs string_defs Let_def)

section \<open>Deleted messages and the read paths\<close>




text \<open>
  When the account of the sender is gone, \<open>getMessage\<close> throws for every requester,
  whether or not the message is deleted.
\<close>

lemma getMessage_sender_account_gone:
  assumes "findById db i = Some m" and "User_findById users (sender m) = None"
  shows "getMessage users db me i = Inl Internal"
  using assms by (simp add: getMessage_def)

section \<open>Forwarding\<close>

text \<open>
  Claim C9. When the requester is the sender or the receiver of a stored message \<open>m\<close> and
  the receiver of the forward exists, \<open>forwardMessage\<close> succeeds and creates a message with
  the content and type of \<open>m\<close>, an id that differs from the id of \<open>m\<close> and of every stored
  message, the requester as sender, and status \<open>sent\<close>; the collection afterwards is the
  old one with the new message appended, so \<open>m\<close> is found under its id unchanged. (\<open>m\<close> is
  a stored document, so it satisfies the schema.)
\<close>

theorem forwardMessage_copies:
  assumes "findById (messages w) i = Some m"
    and "sender m = me \<or> receiver m = me"
    and "User_findById users receiverId = Some r"
    and "schemaOk m"
  shows "\<exists>fwd w'. forwardMessage users w now me i receiverId = (Inr fwd, w')
           \<and> content fwd = content m \<and> messageType fwd = messageType m
           \<and> mid fwd \<noteq> mid m \<and> mid fwd \<notin> mid ` set (messages w)
           \<and> sender fwd = me \<and> receiver fwd = receiverId \<and> status fwd = Sent
           \<and> messages w' = messages w @ [fwd]
           \<and> findById (messages w') i = Some m"
proof -
  let ?fwd = "forwarded (messages w) now me receiverId m"
  let ?w' = "\<lparr>messages = messages w @ [?fwd], timers = timers w @ [?fwd]\<rparr>"
  have run: "forwardMessage users w now me i receiverId = (Inr ?fwd, ?w')"
    by (rule forwardMessage_succeeds [OF assms])
  have mem: "m \<in> set (messages w)"
    using findById_Some [OF assms(1)] by simp
  have fresh: "mid ?fwd \<notin> mid ` set (messages w)"
  proof
    assume "mid ?fwd \<in> mid ` set (messages w)"
    then obtain x where x: "x \<in> set (messages w)" "mid x = freshId (messages w)"
      by (auto simp: forwarded_def)
    from freshId_greater [OF x(1)] x(2) show False by simp
  qed
  have ne: "mid ?fwd \<noteq> mid m"
    using fresh mem by auto
  have kept: "findById (messages ?w') i = Some m"
    using findById_append [OF assms(1)] by simp
  have flds: "content ?fwd = content m \<and> messageType ?fwd = messageType m \<and> sender ?fwd = me
      \<and> receiver ?fwd = receiverId \<and> status ?fwd = Sent"
    by (simp add: forwarded_def)
  show ?thesis
    using run fresh ne kept flds by (intro exI [of _ ?fwd] exI [of _ ?w']) simp
qed

theorem forwardMessage_copies_witness:
  "findById (messages exampleWorld) 8 = Some (exampleMessage 8 (of_ascii ''hello again'') 50)
   \<and> schemaOk (exampleMessage 8 (of_ascii ''hello again'') 50)
   \<and> User_findById [alice, bob, carol] 3 = Some carol
   \<and> (\<exists>fwd w'. forwardMessage [alice, bob, carol] exampleWorld 300 2 8 3 = (Inr fwd, w')
         \<and> content fwd = of_ascii ''hello again'' \<and> messageType fwd = TextType
         \<and> mid fwd \<noteq> 8 \<and> mid fwd \<notin> mid ` set (messages exampleWorld)
         \<and> sender fwd = 2 \<and> receiver fwd = 3 \<and> status fwd = Sent
         \<and> messages w' = messages exampleWorld @ [fwd]
         \<and> findById (messages w') 8 = Some (exampleMessage 8 (of_ascii ''hello again'') 50))"
proof -
  let ?m = "exampleMessage 8 (of_ascii ''hello again'') 50"
  have a: "findById (messages exampleWorld) 8 = Some ?m"
    by (simp add: findById_def example_defs)
  have b: "sender ?m = 2 \<or> receiver ?m = 2"
    by (simp add: example_defs)
  have c: "User_findById [alice, bob, carol] 3 = Some carol"
    by (simp add: User_findById_def example_defs)
  have d: "schemaOk ?m"
    by (simp add: schemaOk_def validate_def example_defs string_defs)
  have e: "content ?m = of_ascii ''hello again'' \<and> messageType ?m = TextType \<and> mid ?m = 8"
    by (simp add: exampleMessage_def)
  show ?thesis
    using forwardMessage_copies [OF a b c d, of 300] a c d e by simp
qed

text \<open>
  Claim C10. \<open>forwardMessage\<close> does not look at the deletion flag of the original. When the
  original \<open>m\<close> is stored with \<open>isDeleted\<close> set and the requester is its sender or receiver,
  a forward to an existing receiver succeeds (neither \<open>NotFound\<close> nor \<open>Forbidden\<close>) and
  stores a new message that is not deleted and has the content of \<open>m\<close>; the new message
  passes the conversation filter, so the unpaginated conversation of requester and
  receiver shows it.
\<close>

theorem forwardMessage_ignores_isDeleted:
  assumes "findById (messages w) i = Some m"
    and "isDeleted m"
    and "sender m = me \<or> receiver m = me"
    and "User_findById users receiverId = Some r"
    and "schemaOk m"
  shows "\<exists>fwd w'. forwardMessage users w now me i receiverId = (Inr fwd, w')
           \<and> \<not> isDeleted fwd \<and> content fwd = content m
           \<and> fwd \<in> set (messages w')
           \<and> fwd \<in> set (filter (conversationFilter me receiverId) (messages w'))
           \<and> fwd \<in> document ` set (carried (getConversation (messages w') me receiverId 1 0))"
proof -
  let ?fwd = "forwarded (messages w) now me receiverId m"
  let ?w' = "\<lparr>messages = messages w @ [?fwd], timers = timers w @ [?fwd]\<rparr>"
  have run: "forwardMessage users w now me i receiverId = (Inr ?fwd, ?w')"
    by (rule forwardMessage_succeeds [OF assms(1,3,4,5)])
  have flt: "conversationFilter me receiverId ?fwd"
    by (simp add: conversationFilter_def forwarded_def)
  have seen: "?fwd \<in> document ` set (carried (getConversation (messages ?w') me receiverId 1 0))"
    using flt by (simp add: getConversation_unlimited)
  have flds: "\<not> isDeleted ?fwd \<and> content ?fwd = content m"
    by (simp add: forwarded_def)
  show ?thesis
    using run seen flds flt by (intro exI [of _ ?fwd] exI [of _ ?w']) simp
qed

theorem forwardMessage_ignores_isDeleted_witness:
  "findById (messages exampleWorld) 7 = Some deletedExample \<and> isDeleted deletedExample
   \<and> schemaOk deletedExample \<and> User_findById [alice, bob, carol] 3 = Some carol
   \<and> (\<exists>fwd w'. forwardMessage [alice, bob, carol] exampleWorld 300 2 7 3 = (Inr fwd, w')
         \<and> \<not> isDeleted fwd \<and> content fwd = of_ascii ''hello''
         \<and> fwd \<in> set (messages w')
         \<and> fwd \<in> set (filter (conversationFilter 2 3) (messages w'))
         \<and> fwd \<in> document ` set (carried (getConversation (messages w') 2 3 1 0)))"
proof -
  have a: "findById (messages exampleWorld) 7 = Some deletedExample"
    by (simp add: findById_def example_defs)
  have b: "isDeleted deletedExample"
    by (simp add: example_defs)
  have c: "sender deletedExample = 2 \<or> receiver deletedExample = 2"
    by (simp add: example_defs)
  have d: "User_findById [alice, bob, carol] 3 = Some carol"
    by (simp add: User_findById_def example_defs)
  have e: "schemaOk deletedExample"
    by (simp add: schemaOk_def validate_def example_defs string_defs)
  have f: "content deletedExample = of_ascii ''hello''"
    by (simp add: deletedExample_def exampleMessage_def)
  show ?thesis
    using forwardMessage_ignores_isDeleted [OF a b c d e, of 300] a b d e f by simp
qed

end
